theory Spec2Isabelle
  imports Complex_Main "HOL-Library.Char_ord" "HOL-Library.List_Lexorder" "HOL-Library.Multiset"
begin

section \<open>Python values used by the converter\<close>

text \<open>
  The repository is Python. Its strings are modelled as \<open>string\<close>, one \<open>char\<close> per code
  point below 256 (ffmpeg's output and the file names of the batch). Its integers are
  \<open>int\<close>. Its floats are modelled by \<open>pyfloat\<close>: a finite value is kept as an exact rational
  (the rounding to 53 bits and the underflow of IEEE doubles are not modelled), the two
  infinities and NaN are values of their own, and a result whose magnitude reaches the
  overflow threshold of a double becomes an infinity, as it does in CPython.
  Exceptions are values: \<open>PyExc kind text\<close>, where \<open>text\<close> is what \<open>str(e)\<close> returns.
\<close>

subsection \<open>Exceptions\<close>

datatype exc_kind = ValueError | IndexError | OverflowError | ZeroDivisionError | OtherError

datatype pyexc = PyExc exc_kind string

fun exc_kind_of :: "pyexc \<Rightarrow> exc_kind" where
  "exc_kind_of (PyExc k t) = k"

fun exc_text :: "pyexc \<Rightarrow> string" where
  "exc_text (PyExc k t) = t"

definition bindE :: "pyexc + 'a \<Rightarrow> ('a \<Rightarrow> pyexc + 'b) \<Rightarrow> pyexc + 'b" where
  "bindE m f = (case m of Inl e \<Rightarrow> Inl e | Inr v \<Rightarrow> f v)"

subsection \<open>Strings\<close>

definition is_digit :: "char \<Rightarrow> bool" where
  "is_digit c = (c \<in> set ''0123456789'')"

definition digit_val :: "char \<Rightarrow> nat" where
  "digit_val c = of_char c - 48"

text \<open>\<open>str.isspace\<close>, which is also the class \<open>\s\<close> of \<open>re\<close>, on code points below 256.\<close>

definition is_space :: "char \<Rightarrow> bool" where
  "is_space c = ((of_char c :: nat) \<in> set [9, 10, 11, 12, 13, 28, 29, 30, 31, 32, 133, 160])"

text \<open>The whitespace that \<open>int()\<close> and \<open>float()\<close> accept around a literal.\<close>

definition is_num_space :: "char \<Rightarrow> bool" where
  "is_num_space c = ((of_char c :: nat) \<in> set [9, 10, 11, 12, 13, 32, 133, 160])"

definition py_strip :: "string \<Rightarrow> string" where
  "py_strip s = rev (dropWhile is_space (rev (dropWhile is_space s)))"

definition num_strip :: "string \<Rightarrow> string" where
  "num_strip s = rev (dropWhile is_num_space (rev (dropWhile is_num_space s)))"

fun py_split :: "char \<Rightarrow> string \<Rightarrow> string list" where
  "py_split sep [] = [[]]"
| "py_split sep (c # cs) =
     (if c = sep then [] # py_split sep cs
      else (case py_split sep cs of [] \<Rightarrow> [[c]] | p # ps \<Rightarrow> (c # p) # ps))"

definition py_startswith :: "string \<Rightarrow> string \<Rightarrow> bool" where
  "py_startswith s p = (take (length p) s = p)"

text \<open>\<open>xs[i]\<close> for \<open>i \<ge> 0\<close>: out of range raises IndexError.\<close>

definition py_index :: "'a list \<Rightarrow> nat \<Rightarrow> pyexc + 'a" where
  "py_index xs i =
     (if i < length xs then Inr (xs ! i) else Inl (PyExc IndexError ''list index out of range''))"

text \<open>\<open>s.replace(c, '')\<close> for a one-character \<open>c\<close>.\<close>

definition py_remove :: "char \<Rightarrow> string \<Rightarrow> string" where
  "py_remove c s = filter (\<lambda>d. d \<noteq> c) s"

text \<open>\<open>str.lower\<close> on code points below 256: A-Z and the Latin-1 capitals.\<close>

definition lower_char :: "char \<Rightarrow> char" where
  "lower_char c =
     (let n = (of_char c :: nat)
      in if (65 \<le> n \<and> n \<le> 90) \<or> (192 \<le> n \<and> n \<le> 222 \<and> n \<noteq> 215) then char_of (n + 32) else c)"

definition py_lower :: "string \<Rightarrow> string" where
  "py_lower s = map lower_char s"

fun nat_str :: "nat \<Rightarrow> string" where
  "nat_str n =
     (if n < 10 then [char_of (48 + n)] else nat_str (n div 10) @ [char_of (48 + n mod 10)])"

declare nat_str.simps [simp del]

text \<open>\<open>str(n)\<close> and the format \<open>{n:02d}\<close> of an integer.\<close>

definition int_str :: "int \<Rightarrow> string" where
  "int_str n = (if n < 0 then CHR ''-'' # nat_str (nat (- n)) else nat_str (nat n))"

definition fmt_02d :: "int \<Rightarrow> string" where
  "fmt_02d n = (if 0 \<le> n \<and> n < 10 then CHR ''0'' # int_str n else int_str n)"

subsection \<open>Floats\<close>

datatype pyfloat = Fin rat | PInf | NInf | NaN

text \<open>
  A value of this magnitude or more rounds to an infinity: the midpoint between the
  largest double and \<open>2 ^ 1024\<close>.
\<close>

definition dbl_limit :: rat where
  "dbl_limit = 2 ^ 1024 - 2 ^ 970"

definition fl :: "rat \<Rightarrow> pyfloat" where
  "fl q = (if dbl_limit \<le> q then PInf else if q \<le> - dbl_limit then NInf else Fin q)"

fun f_neg :: "pyfloat \<Rightarrow> pyfloat" where
  "f_neg (Fin a) = Fin (- a)"
| "f_neg PInf = NInf"
| "f_neg NInf = PInf"
| "f_neg NaN = NaN"

fun f_add :: "pyfloat \<Rightarrow> pyfloat \<Rightarrow> pyfloat" where
  "f_add (Fin a) (Fin b) = fl (a + b)"
| "f_add NaN y = NaN"
| "f_add x NaN = NaN"
| "f_add PInf NInf = NaN"
| "f_add NInf PInf = NaN"
| "f_add PInf y = PInf"
| "f_add NInf y = NInf"
| "f_add (Fin a) y = y"

definition f_sub :: "pyfloat \<Rightarrow> pyfloat \<Rightarrow> pyfloat" where
  "f_sub x y = f_add x (f_neg y)"

fun f_mul :: "pyfloat \<Rightarrow> pyfloat \<Rightarrow> pyfloat" where
  "f_mul (Fin a) (Fin b) = fl (a * b)"
| "f_mul NaN y = NaN"
| "f_mul x NaN = NaN"
| "f_mul (Fin a) y = (if a = 0 then NaN else if 0 < a then y else f_neg y)"
| "f_mul x (Fin b) = (if b = 0 then NaN else if 0 < b then x else f_neg x)"
| "f_mul x y = (if x = y then PInf else NInf)"

text \<open>\<open>x < y\<close> on floats: every comparison with NaN is false.\<close>

fun f_less :: "pyfloat \<Rightarrow> pyfloat \<Rightarrow> bool" where
  "f_less (Fin a) (Fin b) = (a < b)"
| "f_less NaN y = False"
| "f_less x NaN = False"
| "f_less NInf y = (y \<noteq> NInf)"
| "f_less x PInf = (x \<noteq> PInf)"
| "f_less x y = False"

text \<open>\<open>x / y\<close>: Python raises on a zero divisor; the rest is IEEE division.\<close>

fun f_div :: "pyfloat \<Rightarrow> pyfloat \<Rightarrow> pyexc + pyfloat" where
  "f_div x (Fin b) =
     (if b = 0 then Inl (PyExc ZeroDivisionError ''float division by zero'')
      else (case x of
              Fin a \<Rightarrow> Inr (fl (a / b))
            | NaN \<Rightarrow> Inr NaN
            | PInf \<Rightarrow> Inr (if 0 < b then PInf else NInf)
            | NInf \<Rightarrow> Inr (if 0 < b then NInf else PInf)))"
| "f_div NaN y = Inr NaN"
| "f_div x NaN = Inr NaN"
| "f_div (Fin a) y = Inr (Fin 0)"
| "f_div x y = Inr NaN"

text \<open>
  \<open>x // y\<close> and \<open>x % y\<close> (CPython's \<open>float_divmod\<close>): a zero divisor raises, an infinite
  dividend gives NaN, and the remainder has the sign of the divisor.
\<close>

fun f_floordiv :: "pyfloat \<Rightarrow> pyfloat \<Rightarrow> pyexc + pyfloat" where
  "f_floordiv x (Fin b) =
     (if b = 0 then Inl (PyExc ZeroDivisionError ''float floor division by zero'')
      else (case x of Fin a \<Rightarrow> Inr (fl (of_int \<lfloor>a / b\<rfloor>)) | _ \<Rightarrow> Inr NaN))"
| "f_floordiv NaN y = Inr NaN"
| "f_floordiv x NaN = Inr NaN"
| "f_floordiv (Fin a) PInf = Inr (Fin (if a < 0 then - 1 else 0))"
| "f_floordiv (Fin a) NInf = Inr (Fin (if 0 < a then - 1 else 0))"
| "f_floordiv x y = Inr NaN"

fun f_mod :: "pyfloat \<Rightarrow> pyfloat \<Rightarrow> pyexc + pyfloat" where
  "f_mod x (Fin b) =
     (if b = 0 then Inl (PyExc ZeroDivisionError ''float modulo'')
      else (case x of Fin a \<Rightarrow> Inr (Fin (a - b * of_int \<lfloor>a / b\<rfloor>)) | _ \<Rightarrow> Inr NaN))"
| "f_mod NaN y = Inr NaN"
| "f_mod x NaN = Inr NaN"
| "f_mod (Fin a) PInf = Inr (if a < 0 then PInf else Fin a)"
| "f_mod (Fin a) NInf = Inr (if 0 < a then NInf else Fin a)"
| "f_mod x y = Inr NaN"

text \<open>\<open>int(x)\<close> of a float truncates toward zero; NaN and the infinities raise.\<close>

fun int_of_float :: "pyfloat \<Rightarrow> pyexc + int" where
  "int_of_float (Fin a) = Inr (if 0 \<le> a then \<lfloor>a\<rfloor> else \<lceil>a\<rceil>)"
| "int_of_float NaN = Inl (PyExc ValueError ''cannot convert float NaN to integer'')"
| "int_of_float x = Inl (PyExc OverflowError ''cannot convert float infinity to integer'')"

text \<open>The conversion of an integer operand in mixed arithmetic.\<close>

definition float_of_int :: "int \<Rightarrow> pyexc + pyfloat" where
  "float_of_int n =
     (if dbl_limit \<le> \<bar>of_int n\<bar> then Inl (PyExc OverflowError ''int too large to convert to float'')
      else Inr (Fin (of_int n)))"

text \<open>\<open>a / b\<close> on two integers.\<close>

definition int_truediv :: "int \<Rightarrow> int \<Rightarrow> pyexc + pyfloat" where
  "int_truediv a b =
     (if b = 0 then Inl (PyExc ZeroDivisionError ''division by zero'')
      else if dbl_limit \<le> \<bar>of_int a / of_int b\<bar>
      then Inl (PyExc OverflowError ''integer division result too large for a float'')
      else Inr (Fin (of_int a / of_int b)))"

text \<open>\<open>min(a, b)\<close> returns \<open>a\<close> unless \<open>b < a\<close>; \<open>max(a, b)\<close> returns \<open>a\<close> unless \<open>b > a\<close>.\<close>

definition py_min :: "pyfloat \<Rightarrow> pyfloat \<Rightarrow> pyfloat" where
  "py_min a b = (if f_less b a then b else a)"

definition py_max :: "pyfloat \<Rightarrow> pyfloat \<Rightarrow> pyfloat" where
  "py_max a b = (if f_less a b then b else a)"

subsection \<open>Reading numbers from strings\<close>

text \<open>A digit part: digits, with single underscores between them.\<close>

fun digitpart :: "string \<Rightarrow> bool" where
  "digitpart [] = False"
| "digitpart [c] = is_digit c"
| "digitpart (c # d # cs) =
     (is_digit c \<and> (if d = CHR ''_'' then digitpart cs else digitpart (d # cs)))"

definition dec_val :: "string \<Rightarrow> nat" where
  "dec_val s = foldl (\<lambda>n c. 10 * n + digit_val c) 0 (filter (\<lambda>c. c \<noteq> CHR ''_'') s)"

text \<open>
  \<open>int(s)\<close> in base 10. (CPython's limit of 4300 digits, another ValueError, is not
  modelled.)
\<close>

definition py_int :: "string \<Rightarrow> pyexc + int" where
  "py_int s =
     (let t = num_strip s;
          neg = (take 1 t = ''-'');
          body = (if take 1 t = ''-'' \<or> take 1 t = ''+'' then drop 1 t else t)
      in if digitpart body then Inr (if neg then - int (dec_val body) else int (dec_val body))
         else Inl (PyExc ValueError (''invalid literal for int() with base 10: '' @ s)))"

text \<open>The exponent of a float literal: what follows \<open>e\<close> or \<open>E\<close>.\<close>

definition exponent_val :: "string \<Rightarrow> int option" where
  "exponent_val s =
     (let body = (if take 1 s = ''-'' \<or> take 1 s = ''+'' then drop 1 s else s)
      in if digitpart body
         then Some (if take 1 s = ''-'' then - int (dec_val body) else int (dec_val body))
         else None)"

definition mantissa_val :: "string \<Rightarrow> rat option" where
  "mantissa_val s =
     (let ip = takeWhile (\<lambda>c. c \<noteq> CHR ''.'') s;
          rest = dropWhile (\<lambda>c. c \<noteq> CHR ''.'') s;
          fp = drop 1 rest;
          fd = filter is_digit fp
      in if rest = [] then (if digitpart ip then Some (of_nat (dec_val ip)) else None)
         else if (ip = [] \<or> digitpart ip) \<and> (fp = [] \<or> digitpart fp) \<and> \<not> (ip = [] \<and> fp = [])
         then Some (of_nat (dec_val ip) + of_nat (dec_val fp) / 10 ^ length fd)
         else None)"

definition decimal_val :: "string \<Rightarrow> rat option" where
  "decimal_val s =
     (let is_e = (\<lambda>c. c = CHR ''e'' \<or> c = CHR ''E'');
          m = takeWhile (\<lambda>c. \<not> is_e c) s;
          rest = dropWhile (\<lambda>c. \<not> is_e c) s
      in case mantissa_val m of
           None \<Rightarrow> None
         | Some q \<Rightarrow>
             (if rest = [] then Some q
              else (case exponent_val (drop 1 rest) of
                      None \<Rightarrow> None
                    | Some k \<Rightarrow> Some (if 0 \<le> k then q * 10 ^ nat k else q / 10 ^ nat (- k)))))"

text \<open>\<open>float(s)\<close>: a decimal literal, or \<open>inf\<close>, \<open>infinity\<close>, \<open>nan\<close> in any case.\<close>

definition py_float :: "string \<Rightarrow> pyexc + pyfloat" where
  "py_float s =
     (let t = num_strip s;
          neg = (take 1 t = ''-'');
          body = (if take 1 t = ''-'' \<or> take 1 t = ''+'' then drop 1 t else t);
          lb = py_lower body
      in if lb = ''inf'' \<or> lb = ''infinity'' then Inr (if neg then NInf else PInf)
         else if lb = ''nan'' then Inr NaN
         else (case decimal_val body of
                 None \<Rightarrow> Inl (PyExc ValueError (''could not convert string to float: '' @ s))
               | Some q \<Rightarrow> Inr (fl (if neg then - q else q))))"

section \<open>The progress line parser (converter.py)\<close>

record ConversionProgress =
  percent :: pyfloat
  speed :: string
  fps :: string
  eta :: string
  current_time :: pyfloat
  total_duration :: pyfloat

subsection \<open>The three regular expressions\<close>

text \<open>
  \<open>re.search\<close> returns the leftmost match: the pattern is tried at every position of the
  line, from the left. Each pattern below is deterministic (a literal, a run of
  whitespace, a maximal run of one character class, a literal), so the match at one
  position is a function of the text there.
\<close>

fun re_search :: "(string \<Rightarrow> 'a option) \<Rightarrow> string \<Rightarrow> 'a option" where
  "re_search m [] = m []"
| "re_search m (c # cs) = (case m (c # cs) of Some g \<Rightarrow> Some g | None \<Rightarrow> re_search m cs)"

text \<open>\<^verbatim>\<open>time=(\d{2}):(\d{2}):(\d{2})\.(\d+)\<close>, with its four groups.\<close>

definition re_match_time :: "string \<Rightarrow> (string \<times> string \<times> string \<times> string) option" where
  "re_match_time s =
     (let r = drop 5 s;
          g1 = take 2 r; g2 = take 2 (drop 3 r); g3 = take 2 (drop 6 r);
          g4 = takeWhile is_digit (drop 9 r)
      in if take 5 s = ''time=''
            \<and> length g1 = 2 \<and> list_all is_digit g1 \<and> take 1 (drop 2 r) = '':''
            \<and> length g2 = 2 \<and> list_all is_digit g2 \<and> take 1 (drop 5 r) = '':''
            \<and> length g3 = 2 \<and> list_all is_digit g3 \<and> take 1 (drop 8 r) = ''.''
            \<and> g4 \<noteq> []
         then Some (g1, g2, g3, g4) else None)"

definition is_digit_or_dot :: "char \<Rightarrow> bool" where
  "is_digit_or_dot c = (is_digit c \<or> c = CHR ''.'')"

text \<open>\<^verbatim>\<open>speed=\s*([\d.]+)x\<close>, with its group.\<close>

definition re_match_speed :: "string \<Rightarrow> string option" where
  "re_match_speed s =
     (let r = dropWhile is_space (drop 6 s);
          g = takeWhile is_digit_or_dot r
      in if take 6 s = ''speed='' \<and> g \<noteq> [] \<and> take 1 (drop (length g) r) = ''x''
         then Some g else None)"

text \<open>\<^verbatim>\<open>fps=\s*([\d.]+)\<close>, with its group.\<close>

definition re_match_fps :: "string \<Rightarrow> string option" where
  "re_match_fps s =
     (let r = dropWhile is_space (drop 4 s);
          g = takeWhile is_digit_or_dot r
      in if take 4 s = ''fps='' \<and> g \<noteq> [] then Some g else None)"

subsection \<open>The remaining time\<close>

text \<open>
  Both readers compute the ETA with the same lines (converter.py 214-218 and 357-361):
  \<^verbatim>\<open>remaining = (total_duration - current_time) / speed\<close>, and when it is positive
  \<^verbatim>\<open>mins = int(remaining // 60); secs = int(remaining % 60); f"{mins:02d}:{secs:02d}"\<close>.
  \<open>None\<close> is the case where the ETA is not assigned.
\<close>

definition eta_of_remaining :: "pyfloat \<Rightarrow> pyexc + string option" where
  "eta_of_remaining remaining =
     (if f_less (Fin 0) remaining then
        bindE (f_floordiv remaining (Fin 60)) (\<lambda>q.
        bindE (int_of_float q) (\<lambda>mins.
        bindE (f_mod remaining (Fin 60)) (\<lambda>r.
        bindE (int_of_float r) (\<lambda>secs.
        Inr (Some (fmt_02d mins @ '':'' @ fmt_02d secs))))))
      else Inr None)"

definition eta_from :: "pyfloat \<Rightarrow> pyfloat \<Rightarrow> pyfloat \<Rightarrow> pyexc + string option" where
  "eta_from td ct speed_val = bindE (f_div (f_sub td ct) speed_val) eta_of_remaining"

text \<open>\<^verbatim>\<open>try: body except ValueError: pass\<close>, for a body that computes a value.\<close>

definition except_ValueError :: "pyexc + 'a \<Rightarrow> 'a \<Rightarrow> pyexc + 'a" where
  "except_ValueError body dflt =
     (case body of
        Inl e \<Rightarrow> (if exc_kind_of e = ValueError then Inr dflt else Inl e)
      | Inr v \<Rightarrow> Inr v)"

subsection \<open>parse_ffmpeg_progress\<close>

text \<open>The ETA block of the parser (converter.py 209-220).\<close>

definition parse_eta :: "pyfloat \<Rightarrow> pyfloat \<Rightarrow> string option \<Rightarrow> pyexc + string" where
  "parse_eta td ct speed_match =
     (case speed_match of
        None \<Rightarrow> Inr []
      | Some g \<Rightarrow>
          (if f_less (Fin 0) td then
             except_ValueError
               (bindE (py_float g) (\<lambda>speed_val.
                  if f_less (Fin 0) speed_val
                  then bindE (eta_from td ct speed_val)
                         (\<lambda>r. Inr (case r of None \<Rightarrow> [] | Some e \<Rightarrow> e))
                  else Inr []))
               []
           else Inr []))"

text \<open>The percentage of the parser (converter.py 194-198).\<close>

definition parse_percent :: "pyfloat \<Rightarrow> pyfloat \<Rightarrow> pyexc + pyfloat" where
  "parse_percent td ct =
     (if f_less (Fin 0) td
      then bindE (f_div ct td) (\<lambda>q. Inr (py_min (f_mul q (Fin 100)) (Fin 100)))
      else Inr (Fin 0))"

definition parse_ffmpeg_progress :: "string \<Rightarrow> pyfloat \<Rightarrow> pyexc + ConversionProgress option" where
  "parse_ffmpeg_progress line td =
     (case re_search re_match_time line of
        None \<Rightarrow> Inr None
      | Some (g1, g2, g3, g4) \<Rightarrow>
          bindE (py_int g1) (\<lambda>hours.
          bindE (py_int g2) (\<lambda>minutes.
          bindE (py_int g3) (\<lambda>seconds.
          bindE (if 2 \<le> length g4 then py_int (take 2 g4) else Inr 0) (\<lambda>centiseconds.
          bindE (int_truediv centiseconds 100) (\<lambda>frac.
          bindE (float_of_int (hours * 3600 + minutes * 60 + seconds)) (\<lambda>whole.
          let ct = f_add whole frac in
          bindE (parse_percent td ct) (\<lambda>pc.
          let speed_match = re_search re_match_speed line;
              fps_match = re_search re_match_fps line
          in
          bindE (parse_eta td ct speed_match) (\<lambda>e.
          Inr (Some \<lparr> percent = pc,
                      speed = (case speed_match of None \<Rightarrow> [] | Some g \<Rightarrow> g @ ''x''),
                      fps = (case fps_match of None \<Rightarrow> [] | Some g \<Rightarrow> g),
                      eta = e,
                      current_time = ct,
                      total_duration = td \<rparr>))))))))))"

text \<open>A finite value of the model is a double when it is below the overflow threshold.\<close>

definition is_double :: "pyfloat \<Rightarrow> bool" where
  "is_double x = (case x of Fin q \<Rightarrow> \<bar>q\<bar> < dbl_limit | _ \<Rightarrow> True)"

text \<open>
  The seconds a time marker stands for, as the parser computes them from the four groups
  of its match: the fractional group counts by its first two digits, as hundredths, and
  not at all when it has a single digit.
\<close>

definition marker_seconds :: "string \<times> string \<times> string \<times> string \<Rightarrow> rat" where
  "marker_seconds g =
     (case g of (g1, g2, g3, g4) \<Rightarrow>
        of_nat (dec_val g1 * 3600 + dec_val g2 * 60 + dec_val g3)
        + (if 2 \<le> length g4 then of_nat (dec_val (take 2 g4)) / 100 else 0))"

section \<open>The conversion (converter.py)\<close>

subsection \<open>The reader of the structured stream\<close>

text \<open>
  The progress callback is optional; a callback either returns (\<open>None\<close>) or raises. The
  state of the loop over \<open>process.stdout\<close> is the variable \<open>last_progress\<close>; \<open>delivered\<close>
  records the events handed to the callback, as snapshots taken at the call.
\<close>

type_synonym callback = "(ConversionProgress \<Rightarrow> pyexc option) option"

record reader_state =
  last_progress :: "ConversionProgress option"
  delivered :: "ConversionProgress list"

definition call_back ::
  "(ConversionProgress \<Rightarrow> pyexc option) \<Rightarrow> ConversionProgress \<Rightarrow> reader_state
     \<Rightarrow> reader_state \<times> pyexc option" where
  "call_back f p st = (st\<lparr>delivered := delivered st @ [p]\<rparr>, f p)"

text \<open>The time of an \<open>out_time=\<close> value (converter.py 327-332).\<close>

definition out_time_seconds :: "string \<Rightarrow> pyexc + pyfloat option" where
  "out_time_seconds time_str =
     (let parts = py_split CHR '':'' time_str
      in if 3 \<le> length parts then
           bindE (bindE (py_index parts 0) py_int) (\<lambda>hours.
           bindE (bindE (py_index parts 1) py_int) (\<lambda>minutes.
           bindE (bindE (py_index parts 2) py_float) (\<lambda>seconds.
           bindE (float_of_int (hours * 3600 + minutes * 60)) (\<lambda>whole.
           Inr (Some (f_add whole seconds))))))
         else Inr None)"

text \<open>The body of the \<open>try\<close> of the \<open>out_time=\<close> branch (converter.py 327-345).\<close>

definition out_time_body ::
  "pyfloat \<Rightarrow> callback \<Rightarrow> reader_state \<Rightarrow> string \<Rightarrow> reader_state \<times> pyexc option" where
  "out_time_body td cb st time_str =
     (case out_time_seconds time_str of
        Inl e \<Rightarrow> (st, Some e)
      | Inr None \<Rightarrow> (st, None)
      | Inr (Some ct) \<Rightarrow>
          (case cb of
             None \<Rightarrow> (st, None)
           | Some f \<Rightarrow>
               (if f_less (Fin 0) td then
                  (case bindE (f_div ct td) (\<lambda>q. Inr (py_min (f_mul q (Fin 100)) (Fin 100))) of
                     Inl e \<Rightarrow> (st, Some e)
                   | Inr pc \<Rightarrow>
                       (let progress = \<lparr> percent = pc, speed = [], fps = [], eta = [],
                                          current_time = ct, total_duration = td \<rparr>
                        in call_back f progress (st\<lparr>last_progress := Some progress\<rparr>)))
                else (st, None))))"

definition out_time_line ::
  "pyfloat \<Rightarrow> callback \<Rightarrow> reader_state \<Rightarrow> string \<Rightarrow> reader_state \<times> pyexc option" where
  "out_time_line td cb st line =
     (case py_index (py_split CHR ''='' line) 1 of
        Inl e \<Rightarrow> (st, Some e)
      | Inr v \<Rightarrow>
          (let time_str = py_strip v
           in if time_str \<noteq> [] \<and> time_str \<noteq> ''N/A'' then
                (case out_time_body td cb st time_str of
                   (st', None) \<Rightarrow> (st', None)
                 | (st', Some e) \<Rightarrow>
                     (if exc_kind_of e = ValueError \<or> exc_kind_of e = IndexError
                      then (st', None) else (st', Some e)))
              else (st, None)))"

text \<open>The body of the \<open>try\<close> of the \<open>speed=\<close> branch (converter.py 355-361).\<close>

definition speed_eta :: "pyfloat \<Rightarrow> pyfloat \<Rightarrow> string \<Rightarrow> pyexc + string option" where
  "speed_eta td ct speed_val =
     bindE (py_float (py_remove CHR ''x'' speed_val)) (\<lambda>speed_num.
       if f_less (Fin 0) speed_num \<and> f_less (Fin 0) td then eta_from td ct speed_num
       else Inr None)"

definition deliver :: "callback \<Rightarrow> reader_state \<Rightarrow> ConversionProgress \<Rightarrow> reader_state \<times> pyexc option" where
  "deliver cb st lp =
     (case cb of
        None \<Rightarrow> (st\<lparr>last_progress := Some lp\<rparr>, None)
      | Some f \<Rightarrow> call_back f lp (st\<lparr>last_progress := Some lp\<rparr>))"

definition speed_line ::
  "pyfloat \<Rightarrow> callback \<Rightarrow> reader_state \<Rightarrow> string \<Rightarrow> reader_state \<times> pyexc option" where
  "speed_line td cb st line =
     (case py_index (py_split CHR ''='' line) 1 of
        Inl e \<Rightarrow> (st, Some e)
      | Inr v \<Rightarrow>
          (let speed_val = py_strip v
           in case last_progress st of
                None \<Rightarrow> (st, None)
              | Some lp \<Rightarrow>
                  (if speed_val \<noteq> [] \<and> speed_val \<noteq> ''N/A'' then
                     (let lp1 = lp\<lparr>speed := speed_val\<rparr>
                      in case speed_eta td (current_time lp1) speed_val of
                           Inr None \<Rightarrow> deliver cb st lp1
                         | Inr (Some s) \<Rightarrow> deliver cb st (lp1\<lparr>eta := s\<rparr>)
                         | Inl e \<Rightarrow>
                             (if exc_kind_of e = ValueError then deliver cb st lp1
                              else (st\<lparr>last_progress := Some lp1\<rparr>, Some e)))
                   else (st, None))))"

definition fps_line :: "reader_state \<Rightarrow> string \<Rightarrow> reader_state \<times> pyexc option" where
  "fps_line st line =
     (case py_index (py_split CHR ''='' line) 1 of
        Inl e \<Rightarrow> (st, Some e)
      | Inr v \<Rightarrow>
          (let fps_val = py_strip v
           in case last_progress st of
                None \<Rightarrow> (st, None)
              | Some lp \<Rightarrow>
                  (if fps_val \<noteq> [] \<and> fps_val \<noteq> ''N/A''
                   then (st\<lparr>last_progress := Some (lp\<lparr>fps := fps_val\<rparr>)\<rparr>, None)
                   else (st, None))))"

text \<open>One turn of the loop over \<open>process.stdout\<close> (converter.py 321-370).\<close>

definition stdout_line ::
  "pyfloat \<Rightarrow> callback \<Rightarrow> reader_state \<Rightarrow> string \<Rightarrow> reader_state \<times> pyexc option" where
  "stdout_line td cb st line =
     (if py_startswith line ''out_time='' then out_time_line td cb st line
      else if py_startswith line ''speed='' then speed_line td cb st line
      else if py_startswith line ''fps='' then fps_line st line
      else (st, None))"

text \<open>The loop: an exception that leaves a turn ends it.\<close>

fun read_stdout ::
  "pyfloat \<Rightarrow> callback \<Rightarrow> reader_state \<Rightarrow> string list \<Rightarrow> reader_state \<times> pyexc option" where
  "read_stdout td cb st [] = (st, None)"
| "read_stdout td cb st (l # ls) =
     (case stdout_line td cb st l of
        (st', Some e) \<Rightarrow> (st', Some e)
      | (st', None) \<Rightarrow> read_stdout td cb st' ls)"

definition reader_init :: reader_state where
  "reader_init = \<lparr> last_progress = None, delivered = [] \<rparr>"

subsection \<open>The reader of the diagnostic stream\<close>

text \<open>
  \<open>read_stderr\<close> runs on a thread of its own (converter.py 293-301). It returns the lines
  appended to \<open>error_output\<close> and the events handed to the callback; an exception ends
  the thread and nothing else. The interleaving of the two readers is not modelled.
\<close>

fun read_stderr :: "pyfloat \<Rightarrow> callback \<Rightarrow> string list \<Rightarrow> string list \<times> ConversionProgress list" where
  "read_stderr td cb [] = ([], [])"
| "read_stderr td cb (l # ls) =
     (case cb of
        None \<Rightarrow> (l # fst (read_stderr td cb ls), snd (read_stderr td cb ls))
      | Some f \<Rightarrow>
          (case parse_ffmpeg_progress l td of
             Inl e \<Rightarrow> ([l], [])
           | Inr None \<Rightarrow> (l # fst (read_stderr td cb ls), snd (read_stderr td cb ls))
           | Inr (Some p) \<Rightarrow>
               (case f p of
                  Some e \<Rightarrow> ([l], [p])
                | None \<Rightarrow> (l # fst (read_stderr td cb ls), p # snd (read_stderr td cb ls)))))"

subsection \<open>The environment of a conversion\<close>

text \<open>
  What the operating system answers is a parameter of the model: the size of the input
  file or the exception of \<open>stat\<close>, the two subprocesses, the output file (\<open>None\<close> when it
  does not exist, otherwise its size) before the encoder is launched, at the moment an
  exception interrupts the reading, and once the encoder has terminated, what \<open>unlink\<close>
  raises, and the two readings of the clock. \<open>get_ffmpeg_path\<close> and \<open>get_ffprobe_path\<close>
  are the two paths. The join of the diagnostic reader is taken to complete.
\<close>

record process =
  proc_stdout :: "string list option"
  proc_stderr :: "string list option"
  returncode :: int

record world =
  input_stat :: "pyexc + nat"
  ffprobe_path :: string
  ffmpeg_path :: string
  run_probe :: "string list \<Rightarrow> pyexc + (int \<times> string)"
  popen :: "string list \<Rightarrow> pyexc + process"
  output_before :: "nat option"
  output_midway :: "nat option"
  output_after :: "nat option"
  unlink_error :: "pyexc option"
  time_start :: rat
  time_end :: rat

record ConversionResult =
  success :: bool
  input_file :: string
  output_file :: string
  input_size :: nat
  output_size :: nat
  duration :: rat
  error_message :: string

subsection \<open>get_video_duration\<close>

definition probe_cmd :: "world \<Rightarrow> string \<Rightarrow> string list" where
  "probe_cmd w inp =
     [ffprobe_path w, ''-v'', ''error'', ''-show_entries'', ''format=duration'',
      ''-of'', ''default=noprint_wrappers=1:nokey=1'', inp]"

text \<open>The body of the \<open>try\<close> (converter.py 151-164): \<open>None\<close> when it falls through.\<close>

definition probe_body :: "world \<Rightarrow> string \<Rightarrow> pyexc + pyfloat option" where
  "probe_body w inp =
     bindE (run_probe w (probe_cmd w inp)) (\<lambda>(rc, out).
       if rc = 0 \<and> py_strip out \<noteq> []
       then bindE (py_float (py_strip out)) (\<lambda>d. Inr (Some d))
       else Inr None)"

definition get_video_duration :: "world \<Rightarrow> string \<Rightarrow> pyexc + pyfloat" where
  "get_video_duration w inp =
     (case probe_body w inp of
        Inr (Some d) \<Rightarrow> Inr d
      | Inr None \<Rightarrow> Inr (Fin 0)
      | Inl e \<Rightarrow> Inr (Fin 0))"

subsection \<open>convert_video\<close>

definition ffmpeg_cmd :: "world \<Rightarrow> string \<Rightarrow> string \<Rightarrow> string \<Rightarrow> int \<Rightarrow> string \<Rightarrow> string list" where
  "ffmpeg_cmd w inp outp preset crf audio_bitrate =
     [ffmpeg_path w, ''-y'', ''-i'', inp, ''-c:v'', ''libx264'', ''-preset'', preset,
      ''-crf'', int_str crf, ''-c:a'', ''aac'', ''-b:a'', audio_bitrate,
      ''-movflags'', ''+faststart'', ''-progress'', ''pipe:1'', ''-nostats'', outp]"

definition failed_result :: "world \<Rightarrow> string \<Rightarrow> string \<Rightarrow> nat \<Rightarrow> string \<Rightarrow> ConversionResult" where
  "failed_result w inp outp isz msg =
     \<lparr> success = False, input_file = inp, output_file = outp, input_size = isz,
       output_size = 0, duration = time_end w - time_start w, error_message = msg \<rparr>"

text \<open>\<open>error_output\<close>, as the diagnostic reader leaves it.\<close>

definition error_output :: "pyfloat \<Rightarrow> callback \<Rightarrow> process \<Rightarrow> string list" where
  "error_output td cb p =
     (case proc_stderr p of None \<Rightarrow> [] | Some ls \<Rightarrow> fst (read_stderr td cb ls))"

text \<open>
  The classification (converter.py 378-405), with the output file it leaves: a failure
  unlinks the output when it exists, and an exception of \<open>unlink\<close> is passed over.
\<close>

definition classify ::
  "world \<Rightarrow> string \<Rightarrow> string \<Rightarrow> nat \<Rightarrow> process \<Rightarrow> string list \<Rightarrow> ConversionResult \<times> nat option" where
  "classify w inp outp isz p err =
     (case (if returncode p = 0 then output_after w else None) of
        Some out_size \<Rightarrow>
          (\<lparr> success = True, input_file = inp, output_file = outp, input_size = isz,
             output_size = out_size, duration = time_end w - time_start w,
             error_message = [] \<rparr>,
           output_after w)
      | None \<Rightarrow>
          (failed_result w inp outp isz
             (py_strip (if err \<noteq> [] then concat (drop (length err - 10) err)
                        else ''Error desconocido'')),
           (case output_after w of
              None \<Rightarrow> None
            | Some s \<Rightarrow> (case unlink_error w of None \<Rightarrow> None | Some e \<Rightarrow> Some s))))"

text \<open>The \<open>try\<close> block of \<open>convert_video\<close> with its handler (converter.py 278-417).\<close>

definition encode ::
  "world \<Rightarrow> string \<Rightarrow> string \<Rightarrow> string \<Rightarrow> int \<Rightarrow> string \<Rightarrow> callback \<Rightarrow> nat \<Rightarrow> pyfloat
     \<Rightarrow> ConversionResult \<times> nat option" where
  "encode w inp outp preset crf audio_bitrate cb isz td =
     (case popen w (ffmpeg_cmd w inp outp preset crf audio_bitrate) of
        Inl e \<Rightarrow> (failed_result w inp outp isz (exc_text e), output_before w)
      | Inr p \<Rightarrow>
          (case proc_stdout p of
             None \<Rightarrow>
               (failed_result w inp outp isz ''No se pudo leer la salida de FFmpeg'',
                output_after w)
           | Some ls \<Rightarrow>
               (case read_stdout td cb reader_init ls of
                  (st, Some e) \<Rightarrow> (failed_result w inp outp isz (exc_text e), output_midway w)
                | (st, None) \<Rightarrow> classify w inp outp isz p (error_output td cb p))))"

text \<open>
  \<open>convert_video\<close> returns its result, or the exception that leaves it, and the output
  file as it is at that moment.
\<close>

definition convert_video ::
  "world \<Rightarrow> string \<Rightarrow> string \<Rightarrow> string \<Rightarrow> int \<Rightarrow> string \<Rightarrow> callback
     \<Rightarrow> (pyexc + ConversionResult) \<times> nat option" where
  "convert_video w inp outp preset crf audio_bitrate cb =
     (case input_stat w of
        Inl e \<Rightarrow> (Inl e, output_before w)
      | Inr isz \<Rightarrow>
          (case get_video_duration w inp of
             Inl e \<Rightarrow> (Inl e, output_before w)
           | Inr td \<Rightarrow>
               (let r = encode w inp outp preset crf audio_bitrate cb isz td
                in (Inr (fst r), snd r))))"

section \<open>The progress bar (progress.py)\<close>

text \<open>
  \<open>create_progress_bar\<close> clamps the percentage and fills \<open>int(width * percent / 100)\<close>
  cells. The model returns the clamped percentage and the numbers of filled and empty
  cells; the colour codes and the rendering of the percentage are not modelled.
\<close>

definition create_progress_bar :: "pyfloat \<Rightarrow> int \<Rightarrow> pyexc + (pyfloat \<times> int \<times> int)" where
  "create_progress_bar pc width =
     (let p = py_max (Fin 0) (py_min (Fin 100) pc)
      in bindE (float_of_int width) (\<lambda>wf.
         bindE (f_div (f_mul wf p) (Fin 100)) (\<lambda>q.
         bindE (int_of_float q) (\<lambda>filled.
         Inr (p, filled, width - filled)))))"

section \<open>File discovery (utils.py)\<close>

text \<open>
  A directory listing is the list of its entries, in the order \<open>iterdir\<close> yields them.
  \<open>path_suffix\<close> is \<open>Path.suffix\<close> on the name of an entry: the text from the last dot,
  unless that dot is the first or the last character of the name.
\<close>

record dir_entry =
  entry_name :: string
  entry_is_file :: bool

definition path_suffix :: "string \<Rightarrow> string" where
  "path_suffix name =
     (let ext = rev (takeWhile (\<lambda>c. c \<noteq> CHR ''.'') (rev name));
          i = length name - length ext - 1
      in if CHR ''.'' \<in> set name \<and> 0 < i \<and> ext \<noteq> [] then drop i name else [])"

definition is_avi :: "dir_entry \<Rightarrow> bool" where
  "is_avi e = (entry_is_file e \<and> py_lower (path_suffix (entry_name e)) = ''.avi'')"

definition sort_name :: "dir_entry \<Rightarrow> string" where
  "sort_name e = py_lower (entry_name e)"

definition find_avi_files :: "dir_entry list \<Rightarrow> dir_entry list" where
  "find_avi_files listing = sort_key sort_name (filter is_avi listing)"

section \<open>A sample conversion\<close>

text \<open>
  The scenario of the specification: the input has 50,000,000 bytes, the encoder exits 0
  and leaves an output of 5,000,000 bytes. The probe of this world fails (exit code 1).
\<close>

definition sample_lines :: "string list" where
  "sample_lines =
     [''frame=100'', ''fps=30.0'', ''out_time=00:00:10.000000'', ''speed=2.0x'',
      ''progress=end'']"

definition sample_process :: process where
  "sample_process =
     \<lparr> proc_stdout = Some sample_lines,
       proc_stderr = Some [''frame=100 fps=30.0 q=28.0 time=00:00:10.00 speed=2.0x''],
       returncode = 0 \<rparr>"

definition sample_world :: world where
  "sample_world =
     \<lparr> input_stat = Inr 50000000,
       ffprobe_path = ''ffprobe'',
       ffmpeg_path = ''ffmpeg'',
       run_probe = (\<lambda>cmd. Inr (1, [])),
       popen = (\<lambda>cmd. Inr sample_process),
       output_before = None,
       output_midway = Some 1000,
       output_after = Some 5000000,
       unlink_error = None,
       time_start = 0,
       time_end = 12 \<rparr>"

text \<open>Four entries of a directory, for the examples of file discovery.\<close>

definition entry_upper :: dir_entry where
  "entry_upper = \<lparr> entry_name = ''A.avi'', entry_is_file = True \<rparr>"

definition entry_lower :: dir_entry where
  "entry_lower = \<lparr> entry_name = ''a.avi'', entry_is_file = True \<rparr>"

definition entry_clip :: dir_entry where
  "entry_clip = \<lparr> entry_name = ''clip.AVI'', entry_is_file = True \<rparr>"

definition entry_dir :: dir_entry where
  "entry_dir = \<lparr> entry_name = ''old.avi'', entry_is_file = False \<rparr>"

definition entry_text :: dir_entry where
  "entry_text = \<lparr> entry_name = ''notes.txt'', entry_is_file = True \<rparr>"

section \<open>Facts about the Python values and the parser\<close>

lemma bindE_Inr [simp]: "bindE (Inr v) f = f v"
  by (simp add: bindE_def)

lemma bindE_Inl [simp]: "bindE (Inl e) f = Inl e"
  by (simp add: bindE_def)

lemma dbl_limit_big: "(1000000000 :: rat) < dbl_limit"
  by (simp add: dbl_limit_def)

lemma fl_small: "\<bar>q\<bar> < dbl_limit \<Longrightarrow> fl q = Fin q"
  by (auto simp: fl_def)

lemma re_search_SomeD: "re_search m s = Some g \<Longrightarrow> \<exists>k. m (drop k s) = Some g"
proof (induction s)
  case Nil
  then show ?case by simp
next
  case (Cons c cs)
  show ?case
  proof (cases "m (c # cs)")
    case None
    with Cons obtain k where "m (drop k cs) = Some g" by auto
    then have "m (drop (Suc k) (c # cs)) = Some g" by simp
    then show ?thesis by blast
  next
    case (Some a)
    with Cons.prems have "m (drop 0 (c # cs)) = Some g" by simp
    then show ?thesis by blast
  qed
qed

lemma re_match_time_SomeD:
  assumes "re_match_time s = Some (g1, g2, g3, g4)"
  shows "length g1 = 2 \<and> list_all is_digit g1 \<and> length g2 = 2 \<and> list_all is_digit g2
       \<and> length g3 = 2 \<and> list_all is_digit g3 \<and> g4 \<noteq> [] \<and> list_all is_digit g4"
  using assms
  by (auto simp: re_match_time_def Let_def list_all_iff split: if_splits dest: set_takeWhileD)

lemma is_digit_cases: "is_digit c \<Longrightarrow> c \<in> set ''0123456789''"
  by (simp add: is_digit_def)

lemma digit_not_num_space: "is_digit c \<Longrightarrow> \<not> is_num_space c"
  by (auto simp: is_digit_def is_num_space_def)

lemma digit_val_le: "is_digit c \<Longrightarrow> digit_val c \<le> 9"
  by (auto simp: is_digit_def digit_val_def)

lemma digit_not_underscore: "is_digit c \<Longrightarrow> c \<noteq> CHR ''_'' \<and> c \<noteq> CHR ''-'' \<and> c \<noteq> CHR ''+''"
  by (auto simp: is_digit_def)

lemma digitpart_digits: "list_all is_digit g \<Longrightarrow> g \<noteq> [] \<Longrightarrow> digitpart g"
  by (induction g rule: digitpart.induct) (auto dest: digit_not_underscore)

lemma num_strip_digits: "list_all is_digit g \<Longrightarrow> num_strip g = g"
proof -
  assume a: "list_all is_digit g"
  have d: "\<And>xs. list_all is_digit xs \<Longrightarrow> dropWhile is_num_space xs = xs"
    by (case_tac xs) (auto dest: digit_not_num_space)
  have "list_all is_digit (rev g)" using a by (simp add: list_all_iff)
  then show ?thesis using a by (simp add: num_strip_def d)
qed

lemma py_int_digits:
  assumes "list_all is_digit g" "g \<noteq> []"
  shows "py_int g = Inr (int (dec_val g))"
proof -
  obtain c cs where g: "g = c # cs" using assms(2) by (cases g) auto
  with assms(1) have "is_digit c" by simp
  then have "take 1 g \<noteq> ''-''" "take 1 g \<noteq> ''+''" using g by (auto dest: digit_not_underscore)
  then show ?thesis
    using assms by (simp add: py_int_def num_strip_digits digitpart_digits Let_def)
qed

lemma dec_val_two:
  assumes "length g = 2" "list_all is_digit g"
  shows "dec_val g < 100"
proof -
  obtain a b where g: "g = [a, b]" using assms(1)
    by (cases g; cases "tl g") auto
  with assms(2) have "is_digit a" "is_digit b" by simp_all
  then have "digit_val a \<le> 9" "digit_val b \<le> 9" "a \<noteq> CHR ''_''" "b \<noteq> CHR ''_''"
    by (auto dest: digit_val_le digit_not_underscore)
  then show ?thesis by (simp add: dec_val_def g)
qed

lemma dbl_limit_pos: "0 < dbl_limit"
  using dbl_limit_big by simp

lemma is_double_fl: "is_double (fl q)"
  using dbl_limit_pos by (auto simp: is_double_def fl_def)

lemma fl_FinD: "fl q = Fin r \<Longrightarrow> \<bar>r\<bar> < dbl_limit"
  by (auto simp: fl_def split: if_splits)

lemma f_div_double: "f_div x y = Inr z \<Longrightarrow> is_double z"
  using dbl_limit_pos
  by (cases "(x, y)" rule: f_div.cases)
     (auto simp: is_double_def dest: fl_FinD split: if_splits pyfloat.splits)

lemma f_div_InlD: "f_div x y = Inl e \<Longrightarrow> y = Fin 0"
  by (cases "(x, y)" rule: f_div.cases) (auto split: if_splits pyfloat.splits)

lemma f_less_zero_nonzero: "f_less (Fin 0) y \<Longrightarrow> y \<noteq> Fin 0"
  by auto

lemma eta_of_remaining_exc:
  assumes "is_double r" "eta_of_remaining r = Inl e"
  shows "exc_kind_of e = ValueError"
proof (cases r)
  case (Fin a)
  show ?thesis
  proof (cases "0 < a")
    case True
    with Fin assms(1) have lim: "\<bar>a\<bar> < dbl_limit" by (simp add: is_double_def)
    have "0 \<le> \<lfloor>a / 60\<rfloor>" using True by simp
    moreover have "of_int \<lfloor>a / 60\<rfloor> \<le> a / 60" by (rule of_int_floor_le)
    moreover have "a / 60 \<le> a" using True by simp
    ultimately have "\<bar>(of_int \<lfloor>a / 60\<rfloor> :: rat)\<bar> < dbl_limit" using lim True by linarith
    then have "fl (of_int \<lfloor>a / 60\<rfloor>) = Fin (of_int \<lfloor>a / 60\<rfloor>)" by (rule fl_small)
    with Fin True assms(2) show ?thesis by (simp add: eta_of_remaining_def)
  next
    case False
    with Fin assms(2) show ?thesis by (simp add: eta_of_remaining_def)
  qed
next
  case PInf
  with assms(2) show ?thesis by (auto simp: eta_of_remaining_def)
next
  case NInf
  with assms(2) show ?thesis by (simp add: eta_of_remaining_def)
next
  case NaN
  with assms(2) show ?thesis by (simp add: eta_of_remaining_def)
qed

lemma eta_from_exc:
  assumes "speed_val \<noteq> Fin 0" "eta_from td ct speed_val = Inl e"
  shows "exc_kind_of e = ValueError"
proof (cases "f_div (f_sub td ct) speed_val")
  case (Inl a)
  with assms(1) show ?thesis by (auto dest: f_div_InlD)
next
  case (Inr r)
  then have "is_double r" by (rule f_div_double)
  with Inr assms(2) show ?thesis by (auto simp: eta_from_def dest: eta_of_remaining_exc)
qed

lemma py_float_exc: "py_float s = Inl e \<Longrightarrow> exc_kind_of e = ValueError"
  by (auto simp: py_float_def Let_def split: if_splits option.splits)

lemma except_ValueError_total:
  assumes "\<And>e. body = Inl e \<Longrightarrow> exc_kind_of e = ValueError"
  shows "\<exists>v. except_ValueError body d = Inr v"
  using assms by (cases body) (auto simp: except_ValueError_def)

lemma parse_eta_total: "\<exists>s. parse_eta td ct sm = Inr s"
proof (cases sm)
  case None
  then show ?thesis by (simp add: parse_eta_def)
next
  case (Some g)
  show ?thesis
  proof (cases "f_less (Fin 0) td")
    case False
    with Some show ?thesis by (simp add: parse_eta_def)
  next
    case True
    have "\<exists>v. except_ValueError
               (bindE (py_float g) (\<lambda>speed_val.
                  if f_less (Fin 0) speed_val
                  then bindE (eta_from td ct speed_val)
                         (\<lambda>r. Inr (case r of None \<Rightarrow> [] | Some e \<Rightarrow> e))
                  else Inr [])) [] = Inr v"
    proof (rule except_ValueError_total)
      fix e
      assume b: "bindE (py_float g) (\<lambda>speed_val.
                  if f_less (Fin 0) speed_val
                  then bindE (eta_from td ct speed_val)
                         (\<lambda>r. Inr (case r of None \<Rightarrow> [] | Some e \<Rightarrow> e))
                  else Inr []) = Inl e"
      show "exc_kind_of e = ValueError"
      proof (cases "py_float g")
        case (Inl a)
        with b show ?thesis by (auto dest: py_float_exc)
      next
        case (Inr sv)
        show ?thesis
        proof (cases "f_less (Fin 0) sv")
          case False
          with Inr b show ?thesis by simp
        next
          case True
          then have nz: "sv \<noteq> Fin 0" by auto
          from Inr True b have "eta_from td ct sv = Inl e"
            by (cases "eta_from td ct sv") auto
          with nz show ?thesis by (rule eta_from_exc)
        qed
      qed
    qed
    with Some True show ?thesis by (simp add: parse_eta_def)
  qed
qed

lemma parse_percent_total: "\<exists>p. parse_percent td ct = Inr p"
proof (cases "f_less (Fin 0) td")
  case True
  then have "td \<noteq> Fin 0" by auto
  then obtain q where "f_div ct td = Inr q"
    by (cases "f_div ct td") (auto dest: f_div_InlD)
  with True show ?thesis by (simp add: parse_percent_def)
next
  case False
  then show ?thesis by (simp add: parse_percent_def)
qed

lemma int_truediv_small:
  assumes "0 \<le> c" "c < 100"
  shows "int_truediv c 100 = Inr (Fin (of_int c / 100))"
proof -
  have "\<bar>(of_int c :: rat) / 100\<bar> \<le> 1" using assms by simp
  then have "\<not> dbl_limit \<le> \<bar>(of_int c :: rat) / 100\<bar>" using dbl_limit_big by linarith
  then show ?thesis by (simp add: int_truediv_def)
qed

lemma float_of_int_small:
  assumes "0 \<le> n" "n < 1000000000"
  shows "float_of_int n = Inr (Fin (of_int n))"
proof -
  have "\<bar>(of_int n :: rat)\<bar> < 1000000000" using assms by simp
  then have "\<not> dbl_limit \<le> \<bar>(of_int n :: rat)\<bar>" using dbl_limit_big by linarith
  then show ?thesis by (simp add: float_of_int_def)
qed

lemma marker_seconds_bounds:
  assumes "length g1 = 2" "list_all is_digit g1" "length g2 = 2" "list_all is_digit g2"
    "length g3 = 2" "list_all is_digit g3" "list_all is_digit g4"
  shows "0 \<le> marker_seconds (g1, g2, g3, g4) \<and> marker_seconds (g1, g2, g3, g4) < 1000000"
proof -
  have a: "dec_val g1 < 100" "dec_val g2 < 100" "dec_val g3 < 100"
    using assms by (simp_all add: dec_val_two)
  have f: "2 \<le> length g4 \<Longrightarrow> dec_val (take 2 g4) < 100"
  proof -
    assume l: "2 \<le> length g4"
    have "list_all is_digit (take 2 g4)" using assms(7) by (auto simp: list_all_iff dest: in_set_takeD)
    moreover have "length (take 2 g4) = 2" using l by simp
    ultimately show ?thesis by (rule dec_val_two[rotated])
  qed
  have w: "dec_val g1 * 3600 + dec_val g2 * 60 + dec_val g3 < 400000" using a by linarith
  then have w': "(of_nat (dec_val g1 * 3600 + dec_val g2 * 60 + dec_val g3) :: rat) < 400000"
    by (metis of_nat_less_iff of_nat_numeral)
  show ?thesis
  proof (cases "2 \<le> length g4")
    case True
    then have "dec_val (take 2 g4) < 100" by (rule f)
    then have "(of_nat (dec_val (take 2 g4)) :: rat) < 100" by (metis of_nat_less_iff of_nat_numeral)
    then have "(of_nat (dec_val (take 2 g4)) :: rat) / 100 < 1" by simp
    with w' True show ?thesis by (simp add: marker_seconds_def)
  next
    case False
    with w' show ?thesis by (simp add: marker_seconds_def)
  qed
qed

lemma parse_time:
  assumes m: "re_search re_match_time line = Some (g1, g2, g3, g4)"
  shows "\<exists>pc e. parse_ffmpeg_progress line td =
           Inr (Some \<lparr> percent = pc,
                       speed = (case re_search re_match_speed line of None \<Rightarrow> [] | Some g \<Rightarrow> g @ ''x''),
                       fps = (case re_search re_match_fps line of None \<Rightarrow> [] | Some g \<Rightarrow> g),
                       eta = e,
                       current_time = Fin (marker_seconds (g1, g2, g3, g4)),
                       total_duration = td \<rparr>)
         \<and> parse_percent td (Fin (marker_seconds (g1, g2, g3, g4))) = Inr pc
         \<and> parse_eta td (Fin (marker_seconds (g1, g2, g3, g4))) (re_search re_match_speed line) = Inr e"
proof -
  from m obtain k where "re_match_time (drop k line) = Some (g1, g2, g3, g4)"
    by (auto dest: re_search_SomeD)
  then have d: "length g1 = 2" "list_all is_digit g1" "length g2 = 2" "list_all is_digit g2"
    "length g3 = 2" "list_all is_digit g3" "g4 \<noteq> []" "list_all is_digit g4"
    by (auto dest: re_match_time_SomeD)
  have ne: "g1 \<noteq> []" "g2 \<noteq> []" "g3 \<noteq> []" using d by auto
  have i1: "py_int g1 = Inr (int (dec_val g1))" using d ne by (simp add: py_int_digits)
  have i2: "py_int g2 = Inr (int (dec_val g2))" using d ne by (simp add: py_int_digits)
  have i3: "py_int g3 = Inr (int (dec_val g3))" using d ne by (simp add: py_int_digits)
  define c :: int where "c = (if 2 \<le> length g4 then int (dec_val (take 2 g4)) else 0)"
  have t4: "2 \<le> length g4 \<Longrightarrow> list_all is_digit (take 2 g4) \<and> take 2 g4 \<noteq> [] \<and> length (take 2 g4) = 2"
    using d(8) by (auto simp: list_all_iff dest: in_set_takeD)
  have i4: "(if 2 \<le> length g4 then py_int (take 2 g4) else Inr 0) = Inr c"
    using t4 by (simp add: c_def py_int_digits)
  have cb: "0 \<le> c" "c < 100"
    using t4 dec_val_two[of "take 2 g4"] by (auto simp: c_def)
  have fr: "int_truediv c 100 = Inr (Fin (of_int c / 100))" using cb by (rule int_truediv_small)
  define w :: int where "w = int (dec_val g1) * 3600 + int (dec_val g2) * 60 + int (dec_val g3)"
  have a: "dec_val g1 < 100" "dec_val g2 < 100" "dec_val g3 < 100"
    using d by (simp_all add: dec_val_two)
  have wb: "0 \<le> w" "w < 1000000000" using a by (simp_all add: w_def)
  have fw: "float_of_int w = Inr (Fin (of_int w))" using wb by (rule float_of_int_small)
  have ms: "marker_seconds (g1, g2, g3, g4) = of_int w + of_int c / 100"
    by (simp add: marker_seconds_def w_def c_def)
  have mb: "\<bar>marker_seconds (g1, g2, g3, g4)\<bar> < dbl_limit"
    using marker_seconds_bounds[OF d(1-6) d(8)] dbl_limit_big by linarith
  have ct: "f_add (Fin (of_int w)) (Fin (of_int c / 100)) = Fin (marker_seconds (g1, g2, g3, g4))"
    using mb by (simp add: ms[symmetric] fl_small)
  have ct': "fl (rat_of_nat (dec_val g1) * 3600 + rat_of_nat (dec_val g2) * 60
                  + rat_of_nat (dec_val g3) + rat_of_int c / 100)
             = Fin (marker_seconds (g1, g2, g3, g4))"
    using ct by (simp add: w_def)
  obtain pc where pc: "parse_percent td (Fin (marker_seconds (g1, g2, g3, g4))) = Inr pc"
    using parse_percent_total by blast
  obtain e where e: "parse_eta td (Fin (marker_seconds (g1, g2, g3, g4))) (re_search re_match_speed line) = Inr e"
    using parse_eta_total by blast
  have "parse_ffmpeg_progress line td =
           Inr (Some \<lparr> percent = pc,
                       speed = (case re_search re_match_speed line of None \<Rightarrow> [] | Some g \<Rightarrow> g @ ''x''),
                       fps = (case re_search re_match_fps line of None \<Rightarrow> [] | Some g \<Rightarrow> g),
                       eta = e,
                       current_time = Fin (marker_seconds (g1, g2, g3, g4)),
                       total_duration = td \<rparr>)"
    unfolding parse_ffmpeg_progress_def
    by (simp add: m i1 i2 i3 i4 fr fw[unfolded w_def] ct' pc e Let_def)
  with pc e show ?thesis by blast
qed

lemma parse_no_time:
  "re_search re_match_time line = None \<Longrightarrow> parse_ffmpeg_progress line td = Inr None"
  by (simp add: parse_ffmpeg_progress_def)

lemma parse_ffmpeg_progress_total: "\<exists>r. parse_ffmpeg_progress line td = Inr r"
proof (cases "re_search re_match_time line")
  case None
  then show ?thesis by (simp add: parse_no_time)
next
  case (Some g)
  obtain g1 g2 g3 g4 where "g = (g1, g2, g3, g4)" by (cases g) auto
  with Some parse_time[of line g1 g2 g3 g4 td] show ?thesis by auto
qed

lemma re_search_hit: "m s = Some g \<Longrightarrow> re_search m s = Some g"
  by (cases s) simp_all

lemma re_search_skip:
  "(\<forall>k<length pre. m (drop k (pre @ s)) = None) \<Longrightarrow> re_search m (pre @ s) = re_search m s"
proof (induction pre)
  case Nil
  then show ?case by simp
next
  case (Cons c pre)
  from Cons.prems have h0: "m ((c # pre) @ s) = None" by (metis drop0 length_greater_0_conv list.simps(3))
  have "\<forall>k<length pre. m (drop k (pre @ s)) = None"
  proof (intro allI impI)
    fix k assume "k < length pre"
    then have "Suc k < length (c # pre)" by simp
    with Cons.prems have "m (drop (Suc k) ((c # pre) @ s)) = None" by blast
    then show "m (drop k (pre @ s)) = None" by simp
  qed
  then have "re_search m (pre @ s) = re_search m s" by (rule Cons.IH)
  with h0 show ?case by simp
qed

lemma re_match_time_sample:
  "re_match_time (''time=12:34:56.78'' @ post) = Some (''12'', ''34'', ''56'', ''78'' @ takeWhile is_digit post)"
  by (simp add: re_match_time_def is_digit_def)

lemma marker_seconds_sample:
  "marker_seconds (''12'', ''34'', ''56'', ''78'' @ rest) = 12 * 3600 + 34 * 60 + 5678 / 100"
  by (simp add: marker_seconds_def dec_val_def digit_val_def)

lemma fl_num: "\<bar>q\<bar> < 1000000000 \<Longrightarrow> fl q = Fin q"
  using dbl_limit_big by (intro fl_small) linarith

lemma float_of_int_num: "\<bar>n\<bar> < 1000000000 \<Longrightarrow> float_of_int n = Inr (Fin (of_int n))"
proof -
  assume "\<bar>n\<bar> < 1000000000"
  then have "\<bar>(of_int n :: rat)\<bar> < 1000000000"
    by (metis of_int_abs of_int_less_iff of_int_numeral)
  then have "\<not> dbl_limit \<le> \<bar>(of_int n :: rat)\<bar>" using dbl_limit_big by linarith
  then show ?thesis by (simp add: float_of_int_def)
qed

lemma parse_percent_num:
  "0 < t \<Longrightarrow> \<bar>c / t\<bar> < 10000000 \<Longrightarrow>
   parse_percent (Fin t) (Fin c) = Inr (if 100 < c / t * 100 then Fin 100 else Fin (c / t * 100))"
proof -
  assume t: "0 < t" and b: "\<bar>c / t\<bar> < 10000000"
  define q where "q = c / t * 100"
  have 1: "fl (c / t) = Fin (c / t)" using b by (intro fl_num) linarith
  have aux: "\<And>x::rat. x < 10000000 \<Longrightarrow> x * 100 < 1000000000" by simp
  have "\<bar>c / t\<bar> * 100 < 1000000000" using b by (rule aux)
  then have "\<bar>q\<bar> < 1000000000" unfolding q_def abs_mult by simp
  then have 2: "fl q = Fin q" by (rule fl_num)
  have d: "f_div (Fin c) (Fin t) = Inr (Fin (c / t))" using t 1 by simp
  have m: "f_mul (Fin (c / t)) (Fin 100) = Fin q"
    by (simp only: f_mul.simps q_def[symmetric] 2)
  have l: "f_less (Fin 0) (Fin t)" using t by simp
  have "parse_percent (Fin t) (Fin c) = Inr (py_min (Fin q) (Fin 100))"
    by (simp only: parse_percent_def l if_True d bindE_Inr m)
  also have "py_min (Fin q) (Fin 100) = (if 100 < q then Fin 100 else Fin q)"
    by (simp add: py_min_def)
  finally show ?thesis by (simp only: q_def)
qed

text \<open>The definitions that evaluate the model on a concrete input.\<close>

lemmas num_defs = py_index_def py_int_def py_float_def num_strip_def is_num_space_def
  decimal_val_def mantissa_val_def exponent_val_def dec_val_def digit_val_def is_digit_def
  py_lower_def lower_char_def fl_num float_of_int_num py_strip_def is_space_def
  py_startswith_def py_remove_def Let_def

lemmas reader_defs = stdout_line_def out_time_line_def out_time_body_def out_time_seconds_def
  speed_line_def speed_eta_def fps_line_def deliver_def call_back_def reader_init_def

lemma sample_read:
  "read_stdout (Fin 0) None reader_init sample_lines = (reader_init, None)"
  by (simp add: sample_lines_def reader_defs num_defs)

lemma get_video_duration_Inr: "\<exists>d. get_video_duration w inp = Inr d"
  by (simp add: get_video_duration_def split: sum.splits option.splits)

lemma probe_body_raise:
  "run_probe w (probe_cmd w inp) = Inl e \<Longrightarrow> probe_body w inp = Inl e"
  by (simp add: probe_body_def)

lemma probe_body_run:
  "run_probe w (probe_cmd w inp) = Inr (rc, out) \<Longrightarrow>
   probe_body w inp =
     (if rc = 0 \<and> py_strip out \<noteq> []
      then bindE (py_float (py_strip out)) (\<lambda>d. Inr (Some d)) else Inr None)"
  by (simp add: probe_body_def)

lemma encode_popen_raises:
  "popen w (ffmpeg_cmd w inp outp preset crf ab) = Inl e \<Longrightarrow>
   encode w inp outp preset crf ab cb isz td = (failed_result w inp outp isz (exc_text e), output_before w)"
  by (simp add: encode_def)

lemma encode_no_stdout:
  "popen w (ffmpeg_cmd w inp outp preset crf ab) = Inr p \<Longrightarrow> proc_stdout p = None \<Longrightarrow>
   encode w inp outp preset crf ab cb isz td =
     (failed_result w inp outp isz ''No se pudo leer la salida de FFmpeg'', output_after w)"
  by (simp add: encode_def)

lemma encode_read_raises:
  "popen w (ffmpeg_cmd w inp outp preset crf ab) = Inr p \<Longrightarrow> proc_stdout p = Some ls \<Longrightarrow>
   read_stdout td cb reader_init ls = (st, Some e) \<Longrightarrow>
   encode w inp outp preset crf ab cb isz td = (failed_result w inp outp isz (exc_text e), output_midway w)"
  by (simp add: encode_def)

lemma encode_classify:
  "popen w (ffmpeg_cmd w inp outp preset crf ab) = Inr p \<Longrightarrow> proc_stdout p = Some ls \<Longrightarrow>
   read_stdout td cb reader_init ls = (st, None) \<Longrightarrow>
   encode w inp outp preset crf ab cb isz td = classify w inp outp isz p (error_output td cb p)"
  by (simp add: encode_def)

lemma failed_result_fields [simp]:
  "success (failed_result w inp outp isz msg) = False"
  "error_message (failed_result w inp outp isz msg) = msg"
  "output_size (failed_result w inp outp isz msg) = 0"
  by (simp_all add: failed_result_def)

lemma classify_success:
  "success (fst (classify w inp outp isz p err)) = (returncode p = 0 \<and> output_after w \<noteq> None)"
  by (auto simp: classify_def split: option.splits)

lemma classify_success_size:
  "success (fst (classify w inp outp isz p err)) \<Longrightarrow>
   output_after w = Some (output_size (fst (classify w inp outp isz p err)))
   \<and> snd (classify w inp outp isz p err) = output_after w"
  by (auto simp: classify_def split: option.splits if_splits)

lemma classify_failure_file:
  "\<not> success (fst (classify w inp outp isz p err)) \<Longrightarrow>
   snd (classify w inp outp isz p err) =
     (case unlink_error w of None \<Rightarrow> None | Some e \<Rightarrow> output_after w)"
  by (auto simp: classify_def split: option.splits if_splits)

lemma convert_video_stat_ok:
  "input_stat w = Inr isz \<Longrightarrow>
   \<exists>td. get_video_duration w inp = Inr td
      \<and> convert_video w inp outp preset crf ab cb =
          (Inr (fst (encode w inp outp preset crf ab cb isz td)),
           snd (encode w inp outp preset crf ab cb isz td))"
  using get_video_duration_Inr[of w inp] by (auto simp: convert_video_def Let_def)

lemma convert_video_stat_raises:
  "input_stat w = Inl e \<Longrightarrow> convert_video w inp outp preset crf ab cb = (Inl e, output_before w)"
  by (simp add: convert_video_def)

lemma sample_success_eval:
  "convert_video sample_world ''in.avi'' ''out.mp4'' ''medium'' 23 ''128k'' None =
     (Inr \<lparr> success = True, input_file = ''in.avi'', output_file = ''out.mp4'',
            input_size = 50000000, output_size = 5000000, duration = 12,
            error_message = [] \<rparr>,
      Some 5000000)"
  by (simp add: convert_video_def get_video_duration_def probe_body_def encode_def sample_world_def
      sample_process_def sample_read classify_def)

lemma sample_duration_100:
  "get_video_duration (sample_world\<lparr>run_probe := \<lambda>cmd. Inr (0, ''100'')\<rparr>) ''in.avi'' = Inr (Fin 100)"
  by (simp add: get_video_duration_def probe_body_def sample_world_def num_defs)

lemma sample_read_raising:
  "\<exists>st. read_stdout (Fin 100) (Some (\<lambda>p. Some (PyExc OtherError ''sink closed''))) reader_init
          sample_lines = (st, Some (PyExc OtherError ''sink closed''))"
  by (simp add: sample_lines_def reader_defs num_defs py_min_def)

section \<open>The claims\<close>










lemma sample_failed_eval:
  "unlink_error w' = u \<Longrightarrow>
   w' = sample_world\<lparr>popen := \<lambda>cmd. Inr (sample_process\<lparr>returncode := 1\<rparr>), unlink_error := u\<rparr> \<Longrightarrow>
   convert_video w' ''in.avi'' ''out.mp4'' ''medium'' 23 ''128k'' None =
     (Inr \<lparr> success = False, input_file = ''in.avi'', output_file = ''out.mp4'',
            input_size = 50000000, output_size = 0, duration = 12,
            error_message = ''frame=100 fps=30.0 q=28.0 time=00:00:10.00 speed=2.0x'' \<rparr>,
      case u of None \<Rightarrow> None | Some e \<Rightarrow> Some 5000000)"
  by (simp add: convert_video_def get_video_duration_def probe_body_def encode_def sample_world_def
      sample_process_def sample_read classify_def error_output_def failed_result_def py_strip_def
      is_space_def split: option.splits)



text \<open>
  C1 (as amended). \<open>convert_video\<close> returns \<open>success = True\<close> if and only if the encoder was
  launched, the loop over its output ended without an exception, its exit code is 0 and
  the output path exists once it has terminated; on success \<open>output_size\<close> is the size of
  the output file.
\<close>

theorem convert_video_success:
  "fst (convert_video w inp outp preset crf ab cb) = Inr r \<longrightarrow>
     (success r \<longleftrightarrow>
        (\<exists>isz td p ls st.
            input_stat w = Inr isz \<and> get_video_duration w inp = Inr td
          \<and> popen w (ffmpeg_cmd w inp outp preset crf ab) = Inr p \<and> proc_stdout p = Some ls
          \<and> read_stdout td cb reader_init ls = (st, None)
          \<and> returncode p = 0 \<and> output_after w \<noteq> None))
     \<and> (success r \<longrightarrow> output_after w = Some (output_size r))"
proof (intro impI)
  assume a: "fst (convert_video w inp outp preset crf ab cb) = Inr r"
  then obtain isz where isz: "input_stat w = Inr isz"
    by (cases "input_stat w") (auto simp: convert_video_stat_raises)
  then obtain td where td: "get_video_duration w inp = Inr td"
    and c: "convert_video w inp outp preset crf ab cb =
          (Inr (fst (encode w inp outp preset crf ab cb isz td)),
           snd (encode w inp outp preset crf ab cb isz td))"
    using convert_video_stat_ok[of w isz inp outp preset crf ab cb] by auto
  from a c have r: "r = fst (encode w inp outp preset crf ab cb isz td)" by simp
  show "(success r \<longleftrightarrow>
        (\<exists>isz td p ls st.
            input_stat w = Inr isz \<and> get_video_duration w inp = Inr td
          \<and> popen w (ffmpeg_cmd w inp outp preset crf ab) = Inr p \<and> proc_stdout p = Some ls
          \<and> read_stdout td cb reader_init ls = (st, None)
          \<and> returncode p = 0 \<and> output_after w \<noteq> None))
     \<and> (success r \<longrightarrow> output_after w = Some (output_size r))"
  proof (cases "popen w (ffmpeg_cmd w inp outp preset crf ab)")
    case (Inl e)
    then show ?thesis using r isz td by (simp add: encode_popen_raises)
  next
    case (Inr p)
    show ?thesis
    proof (cases "proc_stdout p")
      case None
      then show ?thesis using r isz td Inr by (simp add: encode_no_stdout)
    next
      case (Some ls)
      obtain st x where rd: "read_stdout td cb reader_init ls = (st, x)"
        by (cases "read_stdout td cb reader_init ls") auto
      show ?thesis
      proof (cases x)
        case None
        with Inr Some rd have e: "encode w inp outp preset crf ab cb isz td
            = classify w inp outp isz p (error_output td cb p)"
          by (simp add: encode_classify)
        show ?thesis
          using r e isz td Inr Some rd None
            classify_success[of w inp outp isz p "error_output td cb p"]
            classify_success_size[of w inp outp isz p "error_output td cb p"]
          by auto
      next
        case (Some e)
        with Inr \<open>proc_stdout p = Some ls\<close> rd show ?thesis
          using r isz td by (simp add: encode_read_raises)
      qed
    qed
  qed
qed

theorem convert_video_success_counterexample:
  "fst (convert_video (sample_world\<lparr>run_probe := \<lambda>cmd. Inr (0, ''100'')\<rparr>)
          ''in.avi'' ''out.mp4'' ''medium'' 23 ''128k''
          (Some (\<lambda>p. Some (PyExc OtherError ''sink closed''))))
   = Inr \<lparr> success = False, input_file = ''in.avi'', output_file = ''out.mp4'',
            input_size = 50000000, output_size = 0, duration = 12,
            error_message = ''sink closed'' \<rparr>
   \<and> returncode sample_process = 0
   \<and> output_after (sample_world\<lparr>run_probe := \<lambda>cmd. Inr (0, ''100'')\<rparr>) = Some 5000000"
proof -
  let ?w = "sample_world\<lparr>run_probe := \<lambda>cmd. Inr (0, ''100'')\<rparr>"
  obtain st where rd: "read_stdout (Fin 100) (Some (\<lambda>p. Some (PyExc OtherError ''sink closed'')))
        reader_init sample_lines = (st, Some (PyExc OtherError ''sink closed''))"
    using sample_read_raising by blast
  have "popen ?w (ffmpeg_cmd ?w ''in.avi'' ''out.mp4'' ''medium'' 23 ''128k'') = Inr sample_process"
    "proc_stdout sample_process = Some sample_lines"
    by (simp_all add: sample_world_def sample_process_def)
  then have e: "encode ?w ''in.avi'' ''out.mp4'' ''medium'' 23 ''128k''
      (Some (\<lambda>p. Some (PyExc OtherError ''sink closed''))) 50000000 (Fin 100)
      = (failed_result ?w ''in.avi'' ''out.mp4'' 50000000 ''sink closed'', output_midway ?w)"
    using rd by (simp add: encode_read_raises)
  have i: "input_stat ?w = Inr 50000000" by (simp add: sample_world_def)
  have c: "convert_video ?w ''in.avi'' ''out.mp4'' ''medium'' 23 ''128k''
             (Some (\<lambda>p. Some (PyExc OtherError ''sink closed'')))
           = (Inr (failed_result ?w ''in.avi'' ''out.mp4'' 50000000 ''sink closed''), output_midway ?w)"
    unfolding convert_video_def by (simp only: i sample_duration_100 e Let_def sum.case fst_conv snd_conv)
  have f: "failed_result ?w ''in.avi'' ''out.mp4'' 50000000 ''sink closed''
           = \<lparr> success = False, input_file = ''in.avi'', output_file = ''out.mp4'',
            input_size = 50000000, output_size = 0, duration = 12,
            error_message = ''sink closed'' \<rparr>"
    by (simp add: failed_result_def sample_world_def)
  have o: "returncode sample_process = 0" "output_after ?w = Some 5000000"
    by (simp_all add: sample_world_def sample_process_def)
  show ?thesis unfolding c f using o by simp
qed

theorem convert_video_success_witness:
  "fst (convert_video sample_world ''in.avi'' ''out.mp4'' ''medium'' 23 ''128k'' None) =
     Inr \<lparr> success = True, input_file = ''in.avi'', output_file = ''out.mp4'',
            input_size = 50000000, output_size = 5000000, duration = 12,
            error_message = [] \<rparr>
   \<and> output_after sample_world = Some 5000000
   \<and> (\<exists>isz td p ls st.
            input_stat sample_world = Inr isz \<and> get_video_duration sample_world ''in.avi'' = Inr td
          \<and> popen sample_world (ffmpeg_cmd sample_world ''in.avi'' ''out.mp4'' ''medium'' 23 ''128k'') = Inr p
          \<and> proc_stdout p = Some ls \<and> read_stdout td None reader_init ls = (st, None)
          \<and> returncode p = 0 \<and> output_after sample_world \<noteq> None)"
proof -
  let ?r = "\<lparr> success = True, input_file = ''in.avi'', output_file = ''out.mp4'',
            input_size = 50000000, output_size = 5000000, duration = 12,
            error_message = [] \<rparr>"
  have c: "fst (convert_video sample_world ''in.avi'' ''out.mp4'' ''medium'' 23 ''128k'' None) = Inr ?r"
    by (simp add: sample_success_eval)
  from convert_video_success[of sample_world "''in.avi''" "''out.mp4''" "''medium''" 23 "''128k''" None ?r] c
  show ?thesis by auto
qed

end
